theory Spec2Isabelle
  imports Complex_Main "HOL-Library.Sublist" "HOL-Library.AList"
begin

section \<open>Python values, exceptions and the library boundary\<close>

text \<open>
  The analyzer works on loosely typed payloads: what \<^verbatim>\<open>json.loads\<close> returns and what the
  result dictionaries hold. These are modelled by one datatype of Python values. A
  \<^verbatim>\<open>float\<close> is either a finite binary64 number, represented by the rational it denotes, or
  one of the three special values that \<^verbatim>\<open>json.loads\<close> accepts.

  Strings are lists of 8-bit characters read as the code points U+0000 to U+00FF.
  A dictionary is an association list in insertion order with pairwise distinct keys.
\<close>

datatype pyfloat = Fin rat | NaN | PosInf | NegInf

datatype pyval =
    PNone
  | PBool bool
  | PInt int
  | PFloat pyfloat
  | PStr string
  | PList "pyval list"
  | PDict "(string \<times> pyval) list"

type_synonym pydict = "(string \<times> pyval) list"

text \<open>
  Exceptions are values: the class and what \<^verbatim>\<open>str(e)\<close> returns. \<open>Unmodelled\<close> is not a Python
  class: it marks the outcomes the embedding does not compute (binary64 arithmetic, and
  the parts of JSON the reference decoder \<open>ref_json_loads\<close> leaves out).
\<close>

datatype exn_kind =
    JSONDecodeError | ValueError | TypeError | AttributeError | OverflowError
  | IndexError | KeyError | FileNotFoundError | UnicodeDecodeError | PlainException | Unmodelled

datatype exn = Exn (kind: exn_kind) (msg: string)

text \<open>
  What the Python library does is taken as a parameter wherever the embedding does not
  compute it, so that every general theorem holds whatever it is: \<^verbatim>\<open>json.loads\<close> on a
  string; \<^verbatim>\<open>repr\<close> on a value, which is what \<^verbatim>\<open>str\<close> returns for everything but a string;
  and the exception of \<^verbatim>\<open>d[:n]\<close> on a dict \<open>d\<close>, which is a TypeError (unhashable slice) up to
  CPython 3.11 and a KeyError from 3.12 on.
\<close>

record pylib =
  json_loads :: "string \<Rightarrow> exn + pyval"
  py_repr :: "pyval \<Rightarrow> string"
  dict_slice_error :: "nat \<Rightarrow> exn"

subsection \<open>Dictionaries\<close>

definition dict_get :: "pydict \<Rightarrow> string \<Rightarrow> pyval" where
  \<comment> \<open>\<^verbatim>\<open>d.get(k)\<close>: \<^verbatim>\<open>None\<close> when the key is absent\<close>
  "dict_get d k = (case map_of d k of None \<Rightarrow> PNone | Some v \<Rightarrow> v)"

definition dict_get_default :: "pydict \<Rightarrow> string \<Rightarrow> pyval \<Rightarrow> pyval" where
  \<comment> \<open>\<^verbatim>\<open>d.get(k, default)\<close>\<close>
  "dict_get_default d k dflt = (case map_of d k of None \<Rightarrow> dflt | Some v \<Rightarrow> v)"

definition dict_set :: "pydict \<Rightarrow> string \<Rightarrow> pyval \<Rightarrow> pydict" where
  \<comment> \<open>\<^verbatim>\<open>d[k] = v\<close>: an existing key keeps its position, a new key goes last\<close>
  "dict_set d k v = AList.update k v d"

subsection \<open>Truthiness, type names, conversions\<close>

fun py_truthy :: "pyval \<Rightarrow> bool" where
  "py_truthy PNone = False"
| "py_truthy (PBool b) = b"
| "py_truthy (PInt i) = (i \<noteq> 0)"
| "py_truthy (PFloat f) = (f \<noteq> Fin 0)"
| "py_truthy (PStr s) = (s \<noteq> [])"
| "py_truthy (PList xs) = (xs \<noteq> [])"
| "py_truthy (PDict d) = (d \<noteq> [])"

fun py_type_name :: "pyval \<Rightarrow> string" where
  "py_type_name PNone = ''NoneType''"
| "py_type_name (PBool b) = ''bool''"
| "py_type_name (PInt i) = ''int''"
| "py_type_name (PFloat f) = ''float''"
| "py_type_name (PStr s) = ''str''"
| "py_type_name (PList xs) = ''list''"
| "py_type_name (PDict d) = ''dict''"

fun is_int_or_float :: "pyval \<Rightarrow> bool" where
  \<comment> \<open>\<^verbatim>\<open>isinstance(v, (int, float))\<close>; \<^verbatim>\<open>bool\<close> is a subclass of \<^verbatim>\<open>int\<close>\<close>
  "is_int_or_float (PBool b) = True"
| "is_int_or_float (PInt i) = True"
| "is_int_or_float (PFloat f) = True"
| "is_int_or_float _ = False"

definition py_str :: "pylib \<Rightarrow> pyval \<Rightarrow> string" where
  \<comment> \<open>\<^verbatim>\<open>str(v)\<close>\<close>
  "py_str lib v = (case v of PStr s \<Rightarrow> s | _ \<Rightarrow> py_repr lib v)"

subsection \<open>Characters and strings\<close>

definition py_lower_char :: "char \<Rightarrow> char" where
  \<comment> \<open>\<^verbatim>\<open>str.lower\<close> on U+0000..U+00FF: A-Z, and the capital letters U+00C0..U+00DE but U+00D7\<close>
  "py_lower_char c =
     (let n = (of_char c :: nat)
      in if (65 \<le> n \<and> n \<le> 90) \<or> (192 \<le> n \<and> n \<le> 222 \<and> n \<noteq> 215)
         then char_of (n + 32) else c)"

definition py_lower :: "string \<Rightarrow> string" where
  "py_lower s = map py_lower_char s"

definition py_isspace :: "char \<Rightarrow> bool" where
  \<comment> \<open>\<^verbatim>\<open>str.isspace\<close> on U+0000..U+00FF\<close>
  "py_isspace c = ((of_char c :: nat) \<in> {9, 10, 11, 12, 13, 28, 29, 30, 31, 32, 133, 160})"

definition py_strip :: "string \<Rightarrow> string" where
  \<comment> \<open>\<^verbatim>\<open>s.strip()\<close>\<close>
  "py_strip s = rev (dropWhile py_isspace (rev (dropWhile py_isspace s)))"

fun py_contains :: "string \<Rightarrow> string \<Rightarrow> bool" where
  \<comment> \<open>\<^verbatim>\<open>sub in s\<close>, written \<open>py_contains sub s\<close>\<close>
  "py_contains sub [] = (sub = [])"
| "py_contains sub (c # cs) = (prefix sub (c # cs) \<or> py_contains sub cs)"

fun find_sub :: "string \<Rightarrow> string \<Rightarrow> nat option" where
  \<comment> \<open>\<^verbatim>\<open>s.find(sub)\<close>: the index of the first occurrence\<close>
  "find_sub sub [] = (if sub = [] then Some 0 else None)"
| "find_sub sub (c # cs) =
     (if prefix sub (c # cs) then Some 0 else map_option Suc (find_sub sub cs))"

lemma find_sub_bound:
  "find_sub sub s = Some i \<Longrightarrow> i + length sub \<le> length s"
proof (induction s arbitrary: i)
  case Nil
  then show ?case by (simp split: if_splits)
next
  case (Cons c cs)
  show ?case
  proof (cases "prefix sub (c # cs)")
    case True
    with Cons.prems have "i = 0" by simp
    moreover from True have "length sub \<le> length (c # cs)" by (rule prefix_length_le)
    ultimately show ?thesis by simp
  next
    case False
    with Cons.prems obtain j where j: "find_sub sub cs = Some j" "i = Suc j"
      by auto
    from Cons.IH [OF j(1)] j(2) show ?thesis by simp
  qed
qed

function py_split :: "string \<Rightarrow> string \<Rightarrow> string list" where
  \<comment> \<open>\<^verbatim>\<open>s.split(sep)\<close> for a non-empty separator, written \<open>py_split sep s\<close>; Python raises
      ValueError on an empty separator, which no call site passes\<close>
  "py_split sep s =
     (if sep = [] then [s]
      else case find_sub sep s of
             None \<Rightarrow> [s]
           | Some i \<Rightarrow> take i s # py_split sep (drop (i + length sep) s))"
  by pat_completeness auto
termination
proof (relation "measure (\<lambda>(sep, s). length s)")
  show "wf (measure (\<lambda>(sep, s). length s))" by simp
next
  fix sep s :: string and i
  assume "sep \<noteq> []" and "find_sub sep s = Some i"
  then have "i + length sep \<le> length s" and "0 < length sep"
    by (auto dest: find_sub_bound)
  then have "length s - (i + length sep) < length s" by arith
  then show "((sep, drop (i + length sep) s), (sep, s)) \<in> measure (\<lambda>(sep, s). length s)"
    by simp
qed

declare py_split.simps [simp del]

definition py_slice_to :: "int \<Rightarrow> 'a list \<Rightarrow> 'a list" where
  \<comment> \<open>\<^verbatim>\<open>xs[:n]\<close>; a negative \<open>n\<close> counts from the end\<close>
  "py_slice_to n xs =
     (if 0 \<le> n then take (nat n) xs else take (length xs - nat (- n)) xs)"

fun str_of_nat :: "nat \<Rightarrow> string" where
  "str_of_nat n =
     (if n < 10 then [char_of (48 + n)]
      else str_of_nat (n div 10) @ [char_of (48 + n mod 10)])"

declare str_of_nat.simps [simp del]

definition str_of_int :: "int \<Rightarrow> string" where
  "str_of_int i = (if i < 0 then CHR ''-'' # str_of_nat (nat (- i)) else str_of_nat (nat i))"

definition py_join :: "string \<Rightarrow> string list \<Rightarrow> string" where
  \<comment> \<open>\<^verbatim>\<open>sep.join(parts)\<close>\<close>
  "py_join sep parts = (case parts of [] \<Rightarrow> [] | p # ps \<Rightarrow> p @ concat (map (\<lambda>q. sep @ q) ps))"

definition is_linebreak :: "char \<Rightarrow> bool" where
  \<comment> \<open>the line boundaries of \<^verbatim>\<open>str.splitlines\<close> on U+0000..U+00FF\<close>
  "is_linebreak c = ((of_char c :: nat) \<in> {10, 11, 12, 13, 28, 29, 30, 133})"

fun splitlines_from :: "string \<Rightarrow> string \<Rightarrow> string list" where
  \<comment> \<open>the first argument is the current line, reversed\<close>
  "splitlines_from acc [] = (if acc = [] then [] else [rev acc])"
| "splitlines_from acc [c] =
     (if is_linebreak c then [rev acc] else [rev (c # acc)])"
| "splitlines_from acc (c # d # cs) =
     (if c = CHR 0x0D \<and> d = CHR 0x0A then rev acc # splitlines_from [] cs
      else if is_linebreak c then rev acc # splitlines_from [] (d # cs)
      else splitlines_from (c # acc) (d # cs))"

definition py_splitlines :: "string \<Rightarrow> string list" where
  "py_splitlines s = splitlines_from [] s"

definition hex_digit :: "nat \<Rightarrow> char" where
  "hex_digit n = (if n < 10 then char_of (48 + n) else char_of (87 + n))"

definition py_repr_char :: "char \<Rightarrow> char \<Rightarrow> string" where
  \<comment> \<open>one character of \<^verbatim>\<open>repr\<close> of a string quoted with \<open>q\<close>\<close>
  "py_repr_char q c =
     (let n = (of_char c :: nat)
      in if c = q \<or> c = CHR 0x5C then [CHR 0x5C, c]
         else if n = 9 then [CHR 0x5C, CHR ''t'']
         else if n = 10 then [CHR 0x5C, CHR ''n'']
         else if n = 13 then [CHR 0x5C, CHR ''r'']
         else if n < 32 \<or> (127 \<le> n \<and> n \<le> 160) \<or> n = 173
           then [CHR 0x5C, CHR ''x'', hex_digit (n div 16), hex_digit (n mod 16)]
         else [c])"

definition py_repr_str :: "string \<Rightarrow> string" where
  \<comment> \<open>\<^verbatim>\<open>repr(s)\<close> of a string: double quotes only when it holds a single quote and no
      double quote\<close>
  "py_repr_str s =
     (let q = (if CHR 0x27 \<in> set s \<and> CHR 0x22 \<notin> set s then CHR 0x22 else CHR 0x27)
      in q # concat (map (py_repr_char q) s) @ [q])"

definition is_digit :: "char \<Rightarrow> bool" where
  "is_digit c = (48 \<le> (of_char c :: nat) \<and> (of_char c :: nat) \<le> 57)"

definition digit_val :: "char \<Rightarrow> nat" where
  "digit_val c = of_char c - 48"

fun int_body :: "nat \<Rightarrow> string \<Rightarrow> nat option" where
  \<comment> \<open>decimal digits, single underscores allowed between two digits\<close>
  "int_body acc [] = Some acc"
| "int_body acc [c] = (if is_digit c then Some (acc * 10 + digit_val c) else None)"
| "int_body acc (c # d # cs) =
     (if is_digit c then int_body (acc * 10 + digit_val c) (d # cs)
      else if c = CHR ''_'' \<and> is_digit d then int_body acc (d # cs)
      else None)"

definition int_isspace :: "char \<Rightarrow> bool" where
  \<comment> \<open>the whitespace \<^verbatim>\<open>int\<close> skips around a literal: the ASCII whitespace of C, and the
      non-ASCII spaces, which the conversion first turns into blanks; the separators
      U+001C..U+001F are not among them\<close>
  "int_isspace c = ((of_char c :: nat) \<in> {9, 10, 11, 12, 13, 32, 133, 160})"

definition py_int_of_str :: "string \<Rightarrow> exn + int" where
  \<comment> \<open>\<^verbatim>\<open>int(s)\<close> for a string, base 10; the message quotes at most 200 characters of the
      repr. CPython 3.11 and later also refuse a literal of more than 4300 digits with a
      ValueError; that cap is left out\<close>
  "py_int_of_str s =
     (let err = Inl (Exn ValueError
                  (''invalid literal for int() with base 10: '' @ take 200 (py_repr_str s)));
          t = rev (dropWhile int_isspace (rev (dropWhile int_isspace s)));
          neg = (case t of c # r \<Rightarrow> c = CHR ''-'' | [] \<Rightarrow> False);
          body = (case t of c # r \<Rightarrow> if c = CHR ''-'' \<or> c = CHR ''+'' then r else t | [] \<Rightarrow> t)
      in case body of
           [] \<Rightarrow> err
         | c # r \<Rightarrow>
             if is_digit c
             then (case int_body 0 body of
                     None \<Rightarrow> err
                   | Some n \<Rightarrow> Inr (if neg then - int n else int n))
             else err)"

definition py_trunc :: "rat \<Rightarrow> int" where
  \<comment> \<open>rounding towards zero\<close>
  "py_trunc q = (if 0 \<le> q then \<lfloor>q\<rfloor> else \<lceil>q\<rceil>)"

fun py_int :: "pyval \<Rightarrow> exn + int" where
  \<comment> \<open>\<^verbatim>\<open>int(v)\<close>\<close>
  "py_int (PInt i) = Inr i"
| "py_int (PBool b) = Inr (if b then 1 else 0)"
| "py_int (PFloat (Fin q)) = Inr (py_trunc q)"
| "py_int (PFloat NaN) = Inl (Exn ValueError ''cannot convert float NaN to integer'')"
| "py_int (PFloat PosInf) = Inl (Exn OverflowError ''cannot convert float infinity to integer'')"
| "py_int (PFloat NegInf) = Inl (Exn OverflowError ''cannot convert float infinity to integer'')"
| "py_int (PStr s) = py_int_of_str s"
| "py_int v =
     Inl (Exn TypeError
       (''int() argument must be a string, a bytes-like object or a real number, not ''
        @ [CHR 0x27] @ py_type_name v @ [CHR 0x27]))"

definition list_index :: "'a list \<Rightarrow> nat \<Rightarrow> exn + 'a" where
  \<comment> \<open>\<^verbatim>\<open>xs[i]\<close> for \<open>i \<ge> 0\<close>\<close>
  "list_index xs i =
     (if i < length xs then Inr (xs ! i) else Inl (Exn IndexError ''list index out of range''))"

section \<open>Response extraction (utils/json_parser.py)\<close>

definition strip_fences :: "string \<Rightarrow> exn + string" where
  \<comment> \<open>the markdown step shared by the three parsers:
      \<^verbatim>\<open>cleaned.split("```json")[1].split("```")[0].strip()\<close>, or the same with the plain fence\<close>
  "strip_fences cleaned =
     (if py_contains ''```json'' cleaned then
        (case list_index (py_split ''```json'' cleaned) 1 of
           Inl e \<Rightarrow> Inl e
         | Inr a \<Rightarrow> (case list_index (py_split ''```'' a) 0 of
                       Inl e \<Rightarrow> Inl e
                     | Inr b \<Rightarrow> Inr (py_strip b)))
      else if py_contains ''```'' cleaned then
        (case list_index (py_split ''```'' cleaned) 1 of
           Inl e \<Rightarrow> Inl e
         | Inr a \<Rightarrow> (case list_index (py_split ''```'' a) 0 of
                       Inl e \<Rightarrow> Inl e
                     | Inr b \<Rightarrow> Inr (py_strip b)))
      else Inr cleaned)"

fun re_search_greedy :: "char \<Rightarrow> char \<Rightarrow> string \<Rightarrow> string option" where
  \<comment> \<open>\<^verbatim>\<open>re.search\<close> of \<open>a.*b\<close> with DOTALL: the leftmost start, then the longest match\<close>
  "re_search_greedy a b [] = None"
| "re_search_greedy a b (c # cs) =
     (if c = a \<and> b \<in> set cs
      then Some (c # rev (dropWhile (\<lambda>x. x \<noteq> b) (rev cs)))
      else re_search_greedy a b cs)"

fun re_search_lazy :: "char \<Rightarrow> char \<Rightarrow> string \<Rightarrow> string option" where
  \<comment> \<open>\<^verbatim>\<open>re.search\<close> of \<open>a.*?b\<close> with DOTALL: the leftmost start, then the shortest match\<close>
  "re_search_lazy a b [] = None"
| "re_search_lazy a b (c # cs) =
     (if c = a \<and> b \<in> set cs
      then Some (c # takeWhile (\<lambda>x. x \<noteq> b) cs @ [b])
      else re_search_lazy a b cs)"

definition sanitize_violation :: "pylib \<Rightarrow> pydict \<Rightarrow> exn + pyval" where
  \<comment> \<open>the dictionary display of the loop body, its entries evaluated in order\<close>
  "sanitize_violation lib violation =
     (let file = py_str lib (dict_get_default violation ''file'' (PStr ''unknown''))
      in case (if py_truthy (dict_get violation ''line'')
               then map_sum id PInt (py_int (dict_get_default violation ''line'' (PInt 0)))
               else Inr PNone) of
           Inl e \<Rightarrow> Inl e
         | Inr line \<Rightarrow>
             Inr (PDict
               [(''file'', PStr file),
                (''line'', line),
                (''severity'', PStr (py_str lib (dict_get_default violation ''severity'' (PStr ''medium'')))),
                (''issue'', PStr (py_str lib (dict_get_default violation ''issue'' (PStr ''No description'')))),
                (''recommendation'',
                   PStr (py_str lib (dict_get_default violation ''recommendation'' (PStr ''No recommendation'')))),
                (''article'',
                   if py_truthy (dict_get violation ''article'')
                   then PStr (py_str lib (dict_get_default violation ''article'' (PStr [])))
                   else PNone)]))"

fun sanitize_violations :: "pylib \<Rightarrow> pyval list \<Rightarrow> exn + pyval list" where
  "sanitize_violations lib [] = Inr []"
| "sanitize_violations lib (PDict violation # rest) =
     (case sanitize_violation lib violation of
        Inl e \<Rightarrow> Inl e
      | Inr v \<Rightarrow> (case sanitize_violations lib rest of
                    Inl e \<Rightarrow> Inl e
                  | Inr vs \<Rightarrow> Inr (v # vs)))"
| "sanitize_violations lib (other # rest) = sanitize_violations lib rest"

definition validate_and_sanitize_response :: "pylib \<Rightarrow> pyval \<Rightarrow> exn + pydict" where
  "validate_and_sanitize_response lib data =
     (case data of
        PDict d \<Rightarrow>
          (let passed = dict_get_default d ''passed'' (PBool False);
               violations = dict_get_default d ''violations'' (PList []);
               score = dict_get_default d ''score'' (PInt 0)
           in case (if \<not> is_int_or_float score then Inr 0
                    else map_sum id (\<lambda>i. max 0 (min 100 i)) (py_int score)) of
                Inl e \<Rightarrow> Inl e
              | Inr score' \<Rightarrow>
                  (case sanitize_violations lib (case violations of PList vs \<Rightarrow> vs | _ \<Rightarrow> []) of
                     Inl e \<Rightarrow> Inl e
                   | Inr sanitized \<Rightarrow>
                       Inr [(''passed'', passed),
                            (''violations'', PList sanitized),
                            (''score'', PInt score')]))
      | _ \<Rightarrow>
          Inl (Exn AttributeError
            ([CHR 0x27] @ py_type_name data @ [CHR 0x27] @ '' object has no attribute ''
             @ [CHR 0x27] @ ''get'' @ [CHR 0x27])))"

definition no_json_error :: "string \<Rightarrow> exn" where
  "no_json_error response =
     Exn ValueError (''No valid JSON found in LLM response. First 200 chars: '' @ take 200 response)"

definition object_fallback :: "pylib \<Rightarrow> string \<Rightarrow> string \<Rightarrow> exn + pydict" where
  \<comment> \<open>the regex branch of \<^verbatim>\<open>parse_json_response\<close>, down to the final \<^verbatim>\<open>raise\<close>; the regex is
      searched in \<open>cleaned\<close>, the error quotes \<open>response\<close>\<close>
  "object_fallback lib cleaned response =
     (case re_search_greedy CHR ''{'' CHR ''}'' cleaned of
        None \<Rightarrow> Inl (no_json_error response)
      | Some m \<Rightarrow>
          (case json_loads lib m of
             Inr result \<Rightarrow> validate_and_sanitize_response lib result
           | Inl e \<Rightarrow>
               if kind e \<noteq> JSONDecodeError then Inl e
               else Inl (no_json_error response)))"

definition parse_json_response :: "pylib \<Rightarrow> string \<Rightarrow> exn + pydict" where
  "parse_json_response lib response =
     (case strip_fences (py_strip response) of
        Inl e \<Rightarrow> Inl e
      | Inr cleaned \<Rightarrow>
          (case json_loads lib cleaned of
             Inr result \<Rightarrow> validate_and_sanitize_response lib result
           | Inl e \<Rightarrow>
               if kind e \<noteq> JSONDecodeError then Inl e
               else object_fallback lib cleaned response))"

definition keep_known :: "pyval list \<Rightarrow> string list \<Rightarrow> string list" where
  \<comment> \<open>\<^verbatim>\<open>[f for f in selected if f in available_files]\<close>: only a string equals a string\<close>
  "keep_known selected available_files =
     List.map_filter
       (\<lambda>f. case f of PStr s \<Rightarrow> if s \<in> set available_files then Some s else None | _ \<Rightarrow> None)
       selected"

definition array_fallback :: "pylib \<Rightarrow> string \<Rightarrow> string list \<Rightarrow> exn + string list" where
  \<comment> \<open>the regex branch of the two array parsers, down to the final \<^verbatim>\<open>return []\<close>\<close>
  "array_fallback lib cleaned available_files =
     (case re_search_lazy CHR ''['' CHR '']'' cleaned of
        None \<Rightarrow> Inr []
      | Some m \<Rightarrow>
          (case json_loads lib m of
             Inr (PList selected) \<Rightarrow> Inr (keep_known selected available_files)
           | Inr other \<Rightarrow> Inr []
           | Inl e \<Rightarrow> if kind e \<noteq> JSONDecodeError then Inl e else Inr []))"


section \<open>File selection (utils/file_selector.py)\<close>

definition filter_by_keywords :: "string list \<Rightarrow> string list \<Rightarrow> string list" where
  "filter_by_keywords files keywords =
     (if keywords = [] then files
      else let keywords_lower = map py_lower keywords
           in filter
                (\<lambda>filepath. let filename_lower = py_lower filepath
                             in list_ex (\<lambda>keyword. py_contains keyword filename_lower) keywords_lower)
                files)"

definition parse_file_selection_response :: "pylib \<Rightarrow> string \<Rightarrow> string list \<Rightarrow> exn + string list" where
  \<comment> \<open>the regex is tried only inside the handler of JSONDecodeError\<close>
  "parse_file_selection_response lib response filtered_files =
     (case strip_fences (py_strip response) of
        Inl e \<Rightarrow> Inl e
      | Inr cleaned \<Rightarrow>
          (case json_loads lib cleaned of
             Inr (PList selected) \<Rightarrow> Inr (keep_known selected filtered_files)
           | Inr other \<Rightarrow> Inr []
           | Inl e \<Rightarrow>
               if kind e \<noteq> JSONDecodeError then Inl e
               else array_fallback lib cleaned filtered_files))"

text \<open>
  A rule is a dictionary of the catalog, with values of any type. What the code does with
  a value of the wrong type is part of the embedding: \<^verbatim>\<open>.get\<close> on a value that is not a dict,
  \<^verbatim>\<open>.lower\<close> on a value that is not a string, a loop over a value that is not iterable and a
  slice of a value that has none all raise.
\<close>

type_synonym rule = pydict

definition no_attribute :: "pyval \<Rightarrow> string \<Rightarrow> exn" where
  "no_attribute v name =
     Exn AttributeError
       ([CHR 0x27] @ py_type_name v @ [CHR 0x27] @ '' object has no attribute ''
        @ [CHR 0x27] @ name @ [CHR 0x27])"

definition py_get :: "pyval \<Rightarrow> string \<Rightarrow> pyval \<Rightarrow> exn + pyval" where
  \<comment> \<open>\<^verbatim>\<open>obj.get(key, default)\<close> on a value of any type\<close>
  "py_get obj k dflt =
     (case obj of PDict d \<Rightarrow> Inr (dict_get_default d k dflt) | _ \<Rightarrow> Inl (no_attribute obj ''get''))"

definition py_iter :: "pyval \<Rightarrow> exn + pyval list" where
  \<comment> \<open>what \<^verbatim>\<open>for x in v\<close> goes through: a list's elements, a string's characters, a dict's
      keys\<close>
  "py_iter v =
     (case v of
        PList xs \<Rightarrow> Inr xs
      | PStr s \<Rightarrow> Inr (map (\<lambda>c. PStr [c]) s)
      | PDict d \<Rightarrow> Inr (map (PStr \<circ> fst) d)
      | _ \<Rightarrow> Inl (Exn TypeError ([CHR 0x27] @ py_type_name v @ [CHR 0x27]
                                   @ '' object is not iterable'')))"

definition py_slice_items :: "pylib \<Rightarrow> nat \<Rightarrow> pyval \<Rightarrow> exn + pyval list" where
  \<comment> \<open>what \<^verbatim>\<open>for p in v[:n]\<close> goes through\<close>
  "py_slice_items lib n v =
     (case v of
        PList xs \<Rightarrow> Inr (take n xs)
      | PStr s \<Rightarrow> Inr (map (\<lambda>c. PStr [c]) (take n s))
      | PDict d \<Rightarrow> Inl (dict_slice_error lib n)
      | _ \<Rightarrow> Inl (Exn TypeError ([CHR 0x27] @ py_type_name v @ [CHR 0x27]
                                   @ '' object is not subscriptable'')))"

fun each_dict :: "(pydict \<Rightarrow> pyval) \<Rightarrow> pyval list \<Rightarrow> exn + pyval list" where
  \<comment> \<open>a comprehension \<^verbatim>\<open>[f(p) for p in ps]\<close> whose body calls \<^verbatim>\<open>p.get\<close>\<close>
  "each_dict f [] = Inr []"
| "each_dict f (PDict p # rest) =
     (case each_dict f rest of Inl e \<Rightarrow> Inl e | Inr vs \<Rightarrow> Inr (f p # vs))"
| "each_dict f (other # rest) = Inl (no_attribute other ''get'')"

fun keyword_strings :: "pyval list \<Rightarrow> exn + string list" where
  \<comment> \<open>the keywords that \<^verbatim>\<open>[k.lower() for k in keywords]\<close> lowers, up to the first that is
      not a string\<close>
  "keyword_strings [] = Inr []"
| "keyword_strings (PStr k # rest) =
     (case keyword_strings rest of Inl e \<Rightarrow> Inl e | Inr ks \<Rightarrow> Inr (k # ks))"
| "keyword_strings (other # rest) = Inl (no_attribute other ''lower'')"

definition filter_by_keywords_any :: "string list \<Rightarrow> pyval \<Rightarrow> exn + string list" where
  \<comment> \<open>\<open>filter_by_keywords\<close> called with keywords of any type, as \<^verbatim>\<open>analyze_rule\<close> calls it: a
      falsy value returns the files; a truthy one is iterated and its items lowered\<close>
  "filter_by_keywords_any files keywords =
     (if \<not> py_truthy keywords then Inr files
      else case py_iter keywords of
             Inl e \<Rightarrow> Inl e
           | Inr items \<Rightarrow>
               (case keyword_strings items of
                  Inl e \<Rightarrow> Inl e
                | Inr ks \<Rightarrow> Inr (filter_by_keywords files ks)))"

text \<open>
  The completion provider. Both prompts are f-strings over values taken from the rule and
  the files; the text of a prompt is a function of the values interpolated into it, so a
  provider, which sees only the prompt, is modelled as a function of these values. The
  other arguments are constants of the call site: \<^verbatim>\<open>max_tokens=500\<close> for a selection,
  \<^verbatim>\<open>max_tokens=2000\<close> for an analysis, \<^verbatim>\<open>temperature=0.3\<close> for both. A provider returns the
  completion text or raises. Formatting a value into the prompt, and \<^verbatim>\<open>json.dumps\<close> of one,
  raise on none of the values of \<open>pyval\<close>.
\<close>

datatype request =
    SelectionRequest
      (sel_files: "string list") (sel_title: pyval) (sel_description: pyval)
      (sel_must_find: pyval) (sel_patterns: "pyval list") (sel_max_files: int)
  | AnalysisRequest
      (an_system_prompt: pyval) (an_title: pyval) (an_article: pyval)
      (an_files_text: string) (an_red_patterns: "pyval list")
      (an_document_checks: "pyval option") (an_example_article: pyval)

type_synonym provider = "request \<Rightarrow> exn + string"

text \<open>
  What the process finds around it: the environment variable read by the constructor of
  \<^verbatim>\<open>FeatherlessClient\<close>, and the remote service that a client built with a given key reaches.
\<close>

record world =
  env_api_key :: "string option"
  featherless_api :: "string \<Rightarrow> provider"

definition FeatherlessClient :: "world \<Rightarrow> exn + provider" where
  \<comment> \<open>\<^verbatim>\<open>FeatherlessClient()\<close> of utils/llm_client.py, called without a key\<close>
  "FeatherlessClient w =
     (case env_api_key w of
        None \<Rightarrow> Inl (Exn ValueError ''FEATHERLESS_API_KEY not found in environment'')
      | Some k \<Rightarrow>
          if k = [] then Inl (Exn ValueError ''FEATHERLESS_API_KEY not found in environment'')
          else Inr (featherless_api w k))"

definition selection_request :: "pylib \<Rightarrow> string list \<Rightarrow> rule \<Rightarrow> int \<Rightarrow> exn + request" where
  \<comment> \<open>the statements of \<^verbatim>\<open>select_best_files\<close> between the client and the \<^verbatim>\<open>try\<close>, in order\<close>
  "selection_request lib filtered_files r max_files =
     (let rule_title = dict_get_default r ''title'' (PStr []);
          rule_description = dict_get_default r ''description'' (PStr [])
      in case py_get (dict_get_default r ''code_checks'' (PDict [])) ''must_find'' (PList []) of
           Inl e \<Rightarrow> Inl e
         | Inr must_find \<Rightarrow>
             (case py_get (dict_get_default r ''code_checks'' (PDict [])) ''red_patterns'' (PList []) of
                Inl e \<Rightarrow> Inl e
              | Inr red_patterns \<Rightarrow>
                  (case py_slice_items lib 3 red_patterns of
                     Inl e \<Rightarrow> Inl e
                   | Inr ps \<Rightarrow>
                       (case each_dict (\<lambda>p. dict_get_default p ''pattern'' (PStr [])) ps of
                          Inl e \<Rightarrow> Inl e
                        | Inr pattern_descriptions \<Rightarrow>
                            Inr (SelectionRequest filtered_files rule_title rule_description
                                   must_find pattern_descriptions max_files)))))"

text \<open>
  Every function that may call the provider returns, next to its outcome, the list of the
  requests it sent, in order.
\<close>

definition select_best_files ::
  "pylib \<Rightarrow> world \<Rightarrow> string list \<Rightarrow> rule \<Rightarrow> int \<Rightarrow> provider option
     \<Rightarrow> (exn + string list) \<times> request list" where
  "select_best_files lib w filtered_files r max_files llm_client =
     (if int (length filtered_files) \<le> max_files then (Inr filtered_files, [])
      else if filtered_files = [] then (Inr [], [])
      else
        (case (case llm_client of None \<Rightarrow> FeatherlessClient w | Some c \<Rightarrow> Inr c) of
           Inl e \<Rightarrow> (Inl e, [])
         | Inr client \<Rightarrow>
             (case selection_request lib filtered_files r max_files of
                Inl e \<Rightarrow> (Inl e, [])
              | Inr req \<Rightarrow>
                  (case client req of
                     Inl e \<Rightarrow> (Inr (py_slice_to max_files filtered_files), [req])
                   | Inr response \<Rightarrow>
                       (case parse_file_selection_response lib response filtered_files of
                          Inl e \<Rightarrow> (Inr (py_slice_to max_files filtered_files), [req])
                        | Inr selected \<Rightarrow> (Inr (py_slice_to max_files selected), [req]))))))"

section \<open>Rule analysis (analyzer.py)\<close>

text \<open>
  The repository as \<^verbatim>\<open>get_all_files\<close> and \<^verbatim>\<open>read_file\<close> present it: the two listings, and
  for each path its text or the exception of the read.
\<close>

record repo =
  code_files :: "string list"
  doc_files :: "string list"
  read_file :: "string \<Rightarrow> exn + string"

fun read_files :: "repo \<Rightarrow> (string \<times> string) list \<Rightarrow> string list \<Rightarrow> (string \<times> string) list" where
  \<comment> \<open>the reading loop: a failed read is skipped; \<open>file_contents\<close> is a dict\<close>
  "read_files rp file_contents [] = file_contents"
| "read_files rp file_contents (filepath # rest) =
     (case read_file rp filepath of
        Inl e \<Rightarrow> read_files rp file_contents rest
      | Inr content \<Rightarrow> read_files rp (AList.update filepath content file_contents) rest)"

definition format_file :: "string \<times> string \<Rightarrow> string" where
  "format_file fc =
     (let filepath = fst fc; content = snd fc;
          max_lines = 200;
          lines = py_splitlines content;
          content_preview =
            (if length lines > max_lines
             then py_join ''\<newline>'' (take max_lines lines)
                  @ ''\<newline>... [truncated, '' @ str_of_nat (length lines - max_lines) @ '' more lines]''
             else content)
      in ''\<newline>===== FILE: '' @ filepath @ '' =====\<newline>'' @ content_preview
         @ ''\<newline>===== END OF '' @ filepath @ '' =====\<newline>'')"

definition format_files :: "(string \<times> string) list \<Rightarrow> string" where
  "format_files file_contents = py_join ''\<newline>'' (map format_file file_contents)"

definition analysis_request :: "pylib \<Rightarrow> rule \<Rightarrow> (string \<times> string) list \<Rightarrow> exn + request" where
  \<comment> \<open>the statements of \<^verbatim>\<open>call_llm_for_rule\<close> before the completion call, in order\<close>
  "analysis_request lib r file_contents =
     (let system_prompt =
            dict_get_default r ''agent_prompt''
              (dict_get_default r ''description'' (PStr ''Analyze for GDPR compliance.''));
          files_text = format_files file_contents
      in case py_get (dict_get_default r ''code_checks'' (PDict [])) ''red_patterns'' (PList []) of
           Inl e \<Rightarrow> Inl e
         | Inr red_patterns \<Rightarrow>
             (let document_checks = dict_get_default r ''document_checks'' (PDict [])
              in case py_slice_items lib 5 red_patterns of
                   Inl e \<Rightarrow> Inl e
                 | Inr ps \<Rightarrow>
                     (case each_dict
                             (\<lambda>p. PDict [(''pattern'', dict_get p ''pattern''),
                                         (''severity'', dict_get p ''severity''),
                                         (''explanation'', dict_get p ''explanation'')])
                             ps of
                        Inl e \<Rightarrow> Inl e
                      | Inr patterns \<Rightarrow>
                          Inr (AnalysisRequest system_prompt
                                 (dict_get_default r ''title'' (PStr ''Unknown''))
                                 (dict_get_default r ''article'' (PStr ''N/A''))
                                 files_text patterns
                                 (if py_truthy document_checks then Some document_checks else None)
                                 (dict_get_default r ''article'' (PStr []))))))"

definition call_llm_for_rule ::
  "pylib \<Rightarrow> rule \<Rightarrow> (string \<times> string) list \<Rightarrow> provider \<Rightarrow> (exn + pydict) \<times> request list" where
  "call_llm_for_rule lib r file_contents llm_client =
     (case analysis_request lib r file_contents of
        Inl e \<Rightarrow> (Inl e, [])
      | Inr req \<Rightarrow>
          (case llm_client req of
             Inl e \<Rightarrow> (Inl e, [req])
           | Inr response \<Rightarrow> (parse_json_response lib response, [req])))"

definition rule_id_value :: "rule \<Rightarrow> pyval" where
  \<comment> \<open>\<^verbatim>\<open>rule.get("id")\<close>\<close>
  "rule_id_value r = dict_get r ''id''"

definition no_files_result :: "rule \<Rightarrow> pydict" where
  "no_files_result r =
     [(''rule_id'', rule_id_value r),
      (''passed'', PBool True),
      (''violations'', PList []),
      (''score'', PInt 100),
      (''files_analyzed'', PList []),
      (''note'', PStr ''No relevant files found to analyze'')]"

definition degraded_result :: "rule \<Rightarrow> (string \<times> string) list \<Rightarrow> exn \<Rightarrow> pydict" where
  "degraded_result r file_contents e =
     [(''rule_id'', rule_id_value r),
      (''passed'', PNone),
      (''violations'', PList []),
      (''score'', PInt 0),
      (''files_analyzed'', PList (map (PStr \<circ> fst) file_contents)),
      (''error'', PStr (msg e))]"

definition check_type_of :: "rule \<Rightarrow> pyval" where
  \<comment> \<open>\<^verbatim>\<open>rule.get("check_type", "both")\<close>\<close>
  "check_type_of r = dict_get_default r ''check_type'' (PStr ''both'')"

definition select_code_files ::
  "pylib \<Rightarrow> world \<Rightarrow> rule \<Rightarrow> repo \<Rightarrow> provider \<Rightarrow> (exn + string list) \<times> request list" where
  \<comment> \<open>the block under "Handle code files"; \<open>code_files\<close> starts as the empty list. No
      statement of it is inside a \<^verbatim>\<open>try\<close>\<close>
  "select_code_files lib w r rp llm_client =
     (if check_type_of r \<in> {PStr ''code'', PStr ''both''} then
        (case py_get (dict_get_default r ''code_checks'' (PDict [])) ''enabled'' (PBool False) of
           Inl e \<Rightarrow> (Inl e, [])
         | Inr enabled \<Rightarrow>
             if py_truthy enabled then
               (case py_get (dict_get_default r ''code_checks'' (PDict [])) ''file_keywords''
                       (PList []) of
                  Inl e \<Rightarrow> (Inl e, [])
                | Inr keywords \<Rightarrow>
                    (case filter_by_keywords_any (code_files rp) keywords of
                       Inl e \<Rightarrow> (Inl e, [])
                     | Inr filtered_code \<Rightarrow>
                         if filtered_code \<noteq> []
                         then select_best_files lib w filtered_code r 3 (Some llm_client)
                         else (Inr [], [])))
             else (Inr [], []))
      else (Inr [], []))"

definition select_doc_files :: "rule \<Rightarrow> repo \<Rightarrow> string list" where
  \<comment> \<open>the block under "Handle doc files"\<close>
  "select_doc_files r rp =
     (if check_type_of r \<in> {PStr ''document'', PStr ''both''} then doc_files rp else [])"

definition analyze_rule ::
  "pylib \<Rightarrow> world \<Rightarrow> rule \<Rightarrow> repo \<Rightarrow> provider option \<Rightarrow> (exn + pydict) \<times> request list" where
  "analyze_rule lib w r rp llm_client_arg =
     (case (case llm_client_arg of None \<Rightarrow> FeatherlessClient w | Some c \<Rightarrow> Inr c) of
        Inl e \<Rightarrow> (Inl e, [])
      | Inr llm_client \<Rightarrow>
          (case select_code_files lib w r rp llm_client of
             (Inl e, calls) \<Rightarrow> (Inl e, calls)
           | (Inr selected_code, calls) \<Rightarrow>
               (let selected_files = selected_code @ select_doc_files r rp
                in if selected_files = [] then (Inr (no_files_result r), calls)
                   else
                     (let file_contents = read_files rp [] selected_files
                      in case call_llm_for_rule lib r file_contents llm_client of
                           (Inr result, calls') \<Rightarrow>
                             (Inr (dict_set (dict_set result ''rule_id'' (rule_id_value r))
                                     ''files_analyzed'' (PList (map (PStr \<circ> fst) file_contents))),
                              calls @ calls')
                         | (Inl e, calls') \<Rightarrow>
                             (Inr (degraded_result r file_contents e), calls @ calls')))))"

section \<open>Aggregation (analyzer.py)\<close>

text \<open>
  \<^verbatim>\<open>aggregate_results\<close> assigns to a key of the violation dictionaries it is given. The
  embedding passes the state: next to its outcome the function returns the input list as it
  is after the call. Each violation dictionary is taken to be an object of its own, as the
  ones built by \<open>validate_and_sanitize_response\<close> are.

  The mean is computed by Python in binary64. For integer scores whose sum is below \<open>2^52\<close>
  in absolute value the quotient is rounded correctly and \<^verbatim>\<open>round\<close> of it is the exact
  quotient rounded half to even; that is the case computed here. A score of type
  \<^verbatim>\<open>float\<close>, or a larger sum, gives the outcome \<open>Unmodelled\<close>.
\<close>

definition valid_scores :: "pydict list \<Rightarrow> pyval list" where
  "valid_scores results =
     map (\<lambda>r. dict_get r ''score'')
       (filter (\<lambda>r. dict_get r ''score'' \<noteq> PNone \<and> is_int_or_float (dict_get r ''score'')) results)"

fun int_of_score :: "pyval \<Rightarrow> int" where
  \<comment> \<open>the value an \<^verbatim>\<open>int\<close> or \<^verbatim>\<open>bool\<close> has in a sum\<close>
  "int_of_score (PInt i) = i"
| "int_of_score (PBool b) = (if b then 1 else 0)"
| "int_of_score _ = 0"

fun is_float :: "pyval \<Rightarrow> bool" where
  "is_float (PFloat f) = True"
| "is_float _ = False"

definition py_round :: "rat \<Rightarrow> int" where
  \<comment> \<open>\<^verbatim>\<open>round(x)\<close>: to the nearest integer, a tie to the even one\<close>
  "py_round q =
     (let f = \<lfloor>q\<rfloor>; d = q - of_int f
      in if d < 1 / 2 then f
         else if 1 / 2 < d then f + 1
         else if even f then f else f + 1)"

definition rounded_average :: "pyval list \<Rightarrow> exn + int" where
  \<comment> \<open>\<^verbatim>\<open>round(sum(valid_scores) / len(valid_scores) if valid_scores else 0)\<close>\<close>
  "rounded_average valid =
     (if valid = [] then Inr 0
      else if list_ex is_float valid then Inl (Exn Unmodelled ''binary64 arithmetic'')
      else (let total = sum_list (map int_of_score valid)
            in if \<bar>total\<bar> < 2 ^ 52
               then Inr (py_round (of_int total / of_nat (length valid)))
               else Inl (Exn Unmodelled ''binary64 arithmetic'')))"

definition item_assignment_error :: "pyval \<Rightarrow> exn" where
  \<comment> \<open>\<^verbatim>\<open>v["rule_id"] = x\<close> on a value that is not a dict\<close>
  "item_assignment_error v =
     (case v of
        PList xs \<Rightarrow> Exn TypeError ''list indices must be integers or slices, not str''
      | _ \<Rightarrow> Exn TypeError ([CHR 0x27] @ py_type_name v @ [CHR 0x27]
                              @ '' object does not support item assignment''))"

fun stamp_violations :: "pyval \<Rightarrow> pyval list \<Rightarrow> pyval list \<times> exn option" where
  \<comment> \<open>the inner loop: the violations stamped so far, and the exception that stopped it\<close>
  "stamp_violations rid [] = ([], None)"
| "stamp_violations rid (PDict v # rest) =
     (case stamp_violations rid rest of
        (stamped, err) \<Rightarrow> (PDict (dict_set v ''rule_id'' rid) # stamped, err))"
| "stamp_violations rid (other # rest) = ([], Some (item_assignment_error other))"

definition iterate_violations :: "pyval \<Rightarrow> (pyval list) + exn" where
  \<comment> \<open>what \<^verbatim>\<open>for v in violations\<close> goes through: a list's elements, a string's characters,
      a dict's keys; anything else is not iterable\<close>
  "iterate_violations violations =
     (case violations of
        PList vs \<Rightarrow> Inl vs
      | PStr s \<Rightarrow> Inl (map (\<lambda>c. PStr [c]) s)
      | PDict d \<Rightarrow> Inl (map (PStr \<circ> fst) d)
      | _ \<Rightarrow> Inr (Exn TypeError ([CHR 0x27] @ py_type_name violations @ [CHR 0x27]
                                   @ '' object is not iterable'')))"

fun collect_violations :: "pydict list \<Rightarrow> pyval list \<times> pydict list \<times> exn option" where
  \<comment> \<open>the outer loop: \<open>all_violations\<close>, the results as the loop leaves them, and the
      exception that stopped it\<close>
  "collect_violations [] = ([], [], None)"
| "collect_violations (result # rest) =
     (case iterate_violations (dict_get_default result ''violations'' (PList [])) of
        Inr e \<Rightarrow> ([], result # rest, Some e)
      | Inl vs \<Rightarrow>
          (case stamp_violations (dict_get result ''rule_id'') vs of
             (stamped, Some e) \<Rightarrow>
               (stamped,
                (case dict_get result ''violations'' of
                   PList old \<Rightarrow> dict_set result ''violations'' (PList (stamped @ drop (length stamped) old))
                 | _ \<Rightarrow> result) # rest,
                Some e)
           | (stamped, None) \<Rightarrow>
               (case collect_violations rest of
                  (others, rest', err) \<Rightarrow>
                    (stamped @ others,
                     (case dict_get result ''violations'' of
                        PList old \<Rightarrow> dict_set result ''violations'' (PList stamped)
                      | _ \<Rightarrow> result) # rest',
                     err))))"

definition aggregate_results :: "pydict list \<Rightarrow> (exn + pydict) \<times> pydict list" where
  "aggregate_results results =
     (if results = [] then
        (Inr [(''score'', PInt 0), (''violations'', PList []), (''rules_checked'', PInt 0)], results)
      else
        (case rounded_average (valid_scores results) of
           Inl e \<Rightarrow> (Inl e, results)
         | Inr score \<Rightarrow>
             (case collect_violations results of
                (all_violations, results', Some e) \<Rightarrow> (Inl e, results')
              | (all_violations, results', None) \<Rightarrow>
                  (Inr [(''score'', PInt score),
                        (''violations'', PList all_violations),
                        (''rules_checked'', PInt (int (length results)))],
                   results'))))"

section \<open>A reference library for concrete runs\<close>

text \<open>
  The examples below need \<^verbatim>\<open>json.loads\<close> and \<^verbatim>\<open>repr\<close> on concrete inputs. \<open>ref_json_loads\<close>
  decodes JSON as Python's decoder does (whitespace, strictness about control characters,
  \<^verbatim>\<open>NaN\<close> and \<^verbatim>\<open>Infinity\<close>, a repeated key keeps its first position and its last value), but
  for three things it answers \<open>Unmodelled\<close> instead of computing them: a number with a
  fraction or an exponent, a \<^verbatim>\<open>\u\<close> escape, and an integer of more than 4300 digits. The
  message of a decode error is left empty: every caller discards it.
\<close>

definition decode_error :: exn where
  "decode_error = Exn JSONDecodeError []"

definition json_ws :: "char \<Rightarrow> bool" where
  "json_ws c = ((of_char c :: nat) \<in> {32, 9, 10, 13})"

definition skip_ws :: "string \<Rightarrow> string" where
  "skip_ws s = dropWhile json_ws s"

fun scan_string :: "string \<Rightarrow> string \<Rightarrow> exn + (string \<times> string)" where
  \<comment> \<open>after the opening quote; the first argument is the text read so far, reversed\<close>
  "scan_string acc [] = Inl decode_error"
| "scan_string acc [c] =
     (if c = CHR 0x22 then Inr (rev acc, [])
      else Inl decode_error)"
| "scan_string acc (c # d # cs) =
     (if c = CHR 0x22 then Inr (rev acc, d # cs)
      else if c = CHR 0x5C then
        (if d = CHR 0x22 \<or> d = CHR 0x5C \<or> d = CHR ''/'' then scan_string (d # acc) cs
         else if d = CHR ''b'' then scan_string (CHR 0x08 # acc) cs
         else if d = CHR ''f'' then scan_string (CHR 0x0C # acc) cs
         else if d = CHR ''n'' then scan_string (CHR 0x0A # acc) cs
         else if d = CHR ''r'' then scan_string (CHR 0x0D # acc) cs
         else if d = CHR ''t'' then scan_string (CHR 0x09 # acc) cs
         else if d = CHR ''u'' then Inl (Exn Unmodelled ''unicode escape'')
         else Inl decode_error)
      else if (of_char c :: nat) < 32 then Inl decode_error
      else scan_string (c # acc) (d # cs))"

definition scan_number :: "string \<Rightarrow> exn + (pyval \<times> string)" where
  \<comment> \<open>the text starts with a digit or a minus sign\<close>
  "scan_number s =
     (let neg = (case s of c # r \<Rightarrow> c = CHR ''-'' | [] \<Rightarrow> False);
          t = (if neg then tl s else s)
      in if prefix ''Infinity'' t \<and> neg then Inr (PFloat NegInf, drop 8 t)
         else
           (case t of
              [] \<Rightarrow> Inl decode_error
            | c # r \<Rightarrow>
                if \<not> is_digit c then Inl decode_error
                else
                  (let ds = (if c = CHR ''0'' then [c] else takeWhile is_digit t);
                       rest = drop (length ds) t;
                       fraction = (case rest of
                                     p # q # u \<Rightarrow> p = CHR ''.'' \<and> is_digit q
                                   | _ \<Rightarrow> False);
                       exponent = (case rest of
                                     p # q # u \<Rightarrow>
                                       (p = CHR ''e'' \<or> p = CHR ''E'')
                                       \<and> (is_digit q
                                          \<or> ((q = CHR ''+'' \<or> q = CHR ''-'')
                                              \<and> (case u of x # y \<Rightarrow> is_digit x | [] \<Rightarrow> False)))
                                   | _ \<Rightarrow> False)
                   in if fraction \<or> exponent then Inl (Exn Unmodelled ''binary64 literal'')
                      else if length ds > 4300 then Inl (Exn Unmodelled ''integer digit limit'')
                      else (case int_body 0 ds of
                              None \<Rightarrow> Inl decode_error
                            | Some n \<Rightarrow> Inr (PInt (if neg then - int n else int n), rest)))))"

fun scan_value :: "nat \<Rightarrow> string \<Rightarrow> exn + (pyval \<times> string)"
  and scan_array :: "nat \<Rightarrow> pyval list \<Rightarrow> string \<Rightarrow> exn + (pyval \<times> string)"
  and scan_object :: "nat \<Rightarrow> pydict \<Rightarrow> string \<Rightarrow> exn + (pyval \<times> string)" where
  "scan_value 0 s = Inl (Exn Unmodelled ''fuel'')"
| "scan_value (Suc n) s =
     (case s of
        [] \<Rightarrow> Inl decode_error
      | c # cs \<Rightarrow>
          if c = CHR 0x22 then
            (case scan_string [] cs of
               Inl e \<Rightarrow> Inl e
             | Inr (str, rest) \<Rightarrow> Inr (PStr str, rest))
          else if c = CHR ''{'' then
            (case skip_ws cs of
               [] \<Rightarrow> Inl decode_error
             | d # rest \<Rightarrow> if d = CHR ''}'' then Inr (PDict [], rest)
                           else scan_object n [] (d # rest))
          else if c = CHR ''['' then
            (case skip_ws cs of
               [] \<Rightarrow> Inl decode_error
             | d # rest \<Rightarrow> if d = CHR '']'' then Inr (PList [], rest)
                           else scan_array n [] (d # rest))
          else if prefix ''null'' s then Inr (PNone, drop 4 s)
          else if prefix ''true'' s then Inr (PBool True, drop 4 s)
          else if prefix ''false'' s then Inr (PBool False, drop 5 s)
          else if prefix ''NaN'' s then Inr (PFloat NaN, drop 3 s)
          else if prefix ''Infinity'' s then Inr (PFloat PosInf, drop 8 s)
          else scan_number s)"
| "scan_array 0 acc s = Inl (Exn Unmodelled ''fuel'')"
| "scan_array (Suc n) acc s =
     (case scan_value n s of
        Inl e \<Rightarrow> Inl e
      | Inr (v, rest) \<Rightarrow>
          (case skip_ws rest of
             [] \<Rightarrow> Inl decode_error
           | d # r \<Rightarrow>
               if d = CHR '']'' then Inr (PList (rev (v # acc)), r)
               else if d = CHR '','' then scan_array n (v # acc) (skip_ws r)
               else Inl decode_error))"
| "scan_object 0 acc s = Inl (Exn Unmodelled ''fuel'')"
| "scan_object (Suc n) acc s =
     (case s of
        [] \<Rightarrow> Inl decode_error
      | q # cs \<Rightarrow>
          if q \<noteq> CHR 0x22 then Inl decode_error
          else
            (case scan_string [] cs of
               Inl e \<Rightarrow> Inl e
             | Inr (key, rest) \<Rightarrow>
                 (case skip_ws rest of
                    [] \<Rightarrow> Inl decode_error
                  | colon # r \<Rightarrow>
                      if colon \<noteq> CHR '':'' then Inl decode_error
                      else
                        (case scan_value n (skip_ws r) of
                           Inl e \<Rightarrow> Inl e
                         | Inr (v, rest') \<Rightarrow>
                             (case skip_ws rest' of
                                [] \<Rightarrow> Inl decode_error
                              | d # r' \<Rightarrow>
                                  if d = CHR ''}'' then Inr (PDict (AList.update key v acc), r')
                                  else if d = CHR '','' then
                                    scan_object n (AList.update key v acc) (skip_ws r')
                                  else Inl decode_error)))))"

definition ref_json_loads :: "string \<Rightarrow> exn + pyval" where
  "ref_json_loads s =
     (case scan_value (2 * length s + 2) (skip_ws s) of
        Inl e \<Rightarrow> Inl e
      | Inr (v, rest) \<Rightarrow> if skip_ws rest = [] then Inr v else Inl decode_error)"

fun ref_repr :: "pyval \<Rightarrow> string" where
  \<comment> \<open>\<^verbatim>\<open>repr\<close>; for a finite float only the integral ones below \<open>10^16\<close> are printed as Python
      prints them, and \<open>ref_json_loads\<close> yields no other\<close>
  "ref_repr PNone = ''None''"
| "ref_repr (PBool b) = (if b then ''True'' else ''False'')"
| "ref_repr (PInt i) = str_of_int i"
| "ref_repr (PFloat NaN) = ''nan''"
| "ref_repr (PFloat PosInf) = ''inf''"
| "ref_repr (PFloat NegInf) = ''-inf''"
| "ref_repr (PFloat (Fin q)) =
     (if q = of_int \<lfloor>q\<rfloor> \<and> \<bar>q\<bar> < 10 ^ 16 then str_of_int \<lfloor>q\<rfloor> @ ''.0'' else ''<float>'')"
| "ref_repr (PStr s) = py_repr_str s"
| "ref_repr (PList xs) = ''['' @ py_join '', '' (map ref_repr xs) @ '']''"
| "ref_repr (PDict d) =
     ''{'' @ py_join '', '' (map (\<lambda>kv. py_repr_str (fst kv) @ '': '' @ ref_repr (snd kv)) d) @ ''}''"

definition ref_lib :: pylib where
  \<comment> \<open>the slice of a dict as CPython 3.12 raises it\<close>
  "ref_lib =
     \<lparr> json_loads = ref_json_loads, py_repr = ref_repr,
       dict_slice_error = (\<lambda>n. Exn KeyError (''slice(None, '' @ str_of_nat n @ '', None)'')) \<rparr>"

section \<open>Notions used in the statements\<close>




text \<open>
  For the aggregation: the records the statements are about, whose \<^verbatim>\<open>violations\<close>, when
  present, is a list of dictionaries; the violations of a record; a violation and a record
  after the stamping; and the scores that enter the mean, as integers.
\<close>

fun is_dict :: "pyval \<Rightarrow> bool" where
  "is_dict (PDict d) = True"
| "is_dict _ = False"

definition violations_of :: "pydict \<Rightarrow> pyval list" where
  "violations_of r = (case map_of r ''violations'' of Some (PList vs) \<Rightarrow> vs | _ \<Rightarrow> [])"

definition rule_result_like :: "pydict \<Rightarrow> bool" where
  "rule_result_like r =
     (case map_of r ''violations'' of
        None \<Rightarrow> True
      | Some (PList vs) \<Rightarrow> list_all is_dict vs
      | Some other \<Rightarrow> False)"

definition stamp :: "pyval \<Rightarrow> pyval \<Rightarrow> pyval" where
  "stamp rid v = (case v of PDict d \<Rightarrow> PDict (dict_set d ''rule_id'' rid) | _ \<Rightarrow> v)"

definition stamped_record :: "pydict \<Rightarrow> pydict" where
  "stamped_record r =
     (case map_of r ''violations'' of
        Some (PList vs) \<Rightarrow> dict_set r ''violations'' (PList (map (stamp (dict_get r ''rule_id'')) vs))
      | _ \<Rightarrow> r)"

definition numeric_scores :: "pydict list \<Rightarrow> int list" where
  "numeric_scores results =
     map int_of_score (filter is_int_or_float (map (\<lambda>r. dict_get r ''score'') results))"



section \<open>Example inputs\<close>

definition world_without_key :: world where
  \<comment> \<open>\<^verbatim>\<open>FEATHERLESS_API_KEY\<close> is not set\<close>
  "world_without_key =
     \<lparr> env_api_key = None,
       featherless_api = (\<lambda>k req. Inl (Exn PlainException ''Featherless API error: connection refused'')) \<rparr>"

definition empty_rule :: rule where
  \<comment> \<open>the rule \<^verbatim>\<open>{}\<close>\<close>
  "empty_rule = []"

definition doc_rule :: rule where
  "doc_rule = [(''id'', PStr ''doc_001''), (''check_type'', PStr ''document'')]"

definition cookie_rule :: rule where
  "cookie_rule =
     [(''id'', PStr ''consent_001''),
      (''check_type'', PStr ''code''),
      (''code_checks'',
       PDict [(''enabled'', PBool True), (''file_keywords'', PList [PStr ''cookie''])])]"


definition null_checks_doc_rule :: rule where
  "null_checks_doc_rule =
     [(''id'', PStr ''doc_002''), (''check_type'', PStr ''document''), (''code_checks'', PNone)]"


definition empty_repo :: repo where
  "empty_repo =
     \<lparr> code_files = [], doc_files = [],
       read_file = (\<lambda>p. Inl (Exn FileNotFoundError (''File not found: '' @ p))) \<rparr>"

definition doc_repo :: repo where
  "doc_repo =
     \<lparr> code_files = [], doc_files = [''README.md'', ''notes.txt''],
       read_file = (\<lambda>p. if p = ''README.md'' then Inr ''We use cookies.''
                         else Inl (Exn FileNotFoundError (''File not found: '' @ p))) \<rparr>"

definition cookie_repo :: repo where
  "cookie_repo =
     \<lparr> code_files = [''a/cookie.js'', ''b/cookie.js'', ''c/cookie.js'', ''d/cookie.js''],
       doc_files = [],
       read_file = (\<lambda>p. Inr ''setCookie();'') \<rparr>"

definition failing_provider :: provider where
  "failing_provider = (\<lambda>req. Inl (Exn PlainException ''Featherless API error: timeout''))"

definition replying :: "string \<Rightarrow> provider" where
  "replying text = (\<lambda>req. Inr text)"


definition three_results :: "pydict list" where
  "three_results =
     [[(''rule_id'', PStr ''consent_001''), (''passed'', PBool False),
       (''violations'', PList [PDict [(''file'', PStr ''a.js''), (''line'', PInt 4)]]),
       (''score'', PInt 80)],
      [(''rule_id'', PStr ''consent_002''), (''passed'', PNone), (''violations'', PList []),
       (''score'', PNone), (''error'', PStr ''timeout'')],
      [(''rule_id'', PStr ''security_001''), (''passed'', PBool False),
       (''violations'', PList [PDict [(''file'', PStr ''b.py'')],
                               PDict [(''file'', PStr ''c.py''), (''rule_id'', PStr ''stale'')]]),
       (''score'', PInt 60)]]"

section \<open>Keyword filter\<close>

lemma py_contains_sublist: "py_contains sub s \<longleftrightarrow> sublist sub s"
  by (induction s) (auto simp: sublist_Cons_right)

text \<open>
  C7. With no keyword the file list comes back as it is. With keywords the result is the
  sub-list, in the original order, of the paths whose lowercase form contains the lowercase
  form of some keyword; so \<^verbatim>\<open>COOKIE\<close> matches \<^verbatim>\<open>src/cookie.js\<close>.
\<close>

theorem filter_by_keywords_spec:
  "filter_by_keywords F [] = F
   \<and> subseq (filter_by_keywords F K) F
   \<and> (K \<noteq> [] \<longrightarrow>
        filter_by_keywords F K
          = filter (\<lambda>p. \<exists>k \<in> set K. sublist (py_lower k) (py_lower p)) F)
   \<and> filter_by_keywords [''src/cookie.js''] [''COOKIE''] = [''src/cookie.js'']"
proof (intro conjI impI)
  show "filter_by_keywords F [] = F"
    by (simp add: filter_by_keywords_def)
  show "subseq (filter_by_keywords F K) F"
    by (simp add: filter_by_keywords_def Let_def)
  show "filter_by_keywords [''src/cookie.js''] [''COOKIE''] = [''src/cookie.js'']"
    by code_simp
next
  assume "K \<noteq> []"
  then show "filter_by_keywords F K
          = filter (\<lambda>p. \<exists>k \<in> set K. sublist (py_lower k) (py_lower p)) F"
    by (simp add: filter_by_keywords_def Let_def list_ex_iff py_contains_sublist)
qed

theorem filter_by_keywords_spec_witness:
  "[''COOKIE'', ''Banner''] \<noteq> []
   \<and> filter_by_keywords [''src/cookie.js'', ''src/api.js'', ''ui/ConsentBanner.jsx'']
         [''COOKIE'', ''Banner'']
       = [''src/cookie.js'', ''ui/ConsentBanner.jsx'']
   \<and> filter (\<lambda>p. \<exists>k \<in> set [''COOKIE'', ''Banner'']. sublist (py_lower k) (py_lower p))
         [''src/cookie.js'', ''src/api.js'', ''ui/ConsentBanner.jsx'']
       = [''src/cookie.js'', ''ui/ConsentBanner.jsx'']"
proof -
  have ne: "[''COOKIE'', ''Banner''] \<noteq> []" by simp
  have ev: "filter_by_keywords [''src/cookie.js'', ''src/api.js'', ''ui/ConsentBanner.jsx'']
              [''COOKIE'', ''Banner'']
            = [''src/cookie.js'', ''ui/ConsentBanner.jsx'']"
    by code_simp
  from filter_by_keywords_spec
         [of "[''src/cookie.js'', ''src/api.js'', ''ui/ConsentBanner.jsx'']" "[''COOKIE'', ''Banner'']"]
  have "filter_by_keywords [''src/cookie.js'', ''src/api.js'', ''ui/ConsentBanner.jsx'']
          [''COOKIE'', ''Banner'']
        = filter (\<lambda>p. \<exists>k \<in> set [''COOKIE'', ''Banner'']. sublist (py_lower k) (py_lower p))
            [''src/cookie.js'', ''src/api.js'', ''ui/ConsentBanner.jsx'']"
    using ne by blast
  with ev ne show ?thesis by simp
qed

section \<open>Response extraction\<close>

text \<open>
  The conversion of a string to an integer skips the whitespace of C and the non-ASCII
  spaces, not the separators U+001C..U+001F that \<^verbatim>\<open>str.strip\<close> removes, and its message quotes
  at most 200 characters of the repr.
\<close>

lemma py_int_of_str_examples:
  "py_int_of_str [CHR 0xA0, CHR ''5'', CHR 0x85, CHR 0x0B] = Inr 5"
  "py_int_of_str '' -1_000 '' = Inr (- 1000)"
  "py_int_of_str [CHR 0x1C, CHR ''5'']
     = Inl (Exn ValueError (''invalid literal for int() with base 10: ''
                            @ [CHR 0x27, CHR 0x5C] @ ''x1c5'' @ [CHR 0x27]))"
  "py_strip [CHR 0x1C, CHR ''5''] = ''5''"
  "length (msg (projl (py_int_of_str (replicate 300 CHR ''x'')))) = 240"
  by code_simp+

text \<open>
  What \<open>validate_and_sanitize_response\<close> returns when it returns: the three keys, the score
  an integer between 0 and 100, the violations dictionaries only.
\<close>

lemma sanitize_violations_dicts:
  "sanitize_violations lib vs = Inr out \<Longrightarrow> list_all is_dict out"
proof (induction lib vs arbitrary: out rule: sanitize_violations.induct)
  case (1 lib)
  then show ?case by simp
next
  case (2 lib violation rest)
  then show ?case
    by (auto simp: sanitize_violation_def Let_def split: sum.splits if_splits)
qed simp_all

lemma validate_and_sanitize_response_shape:
  assumes "validate_and_sanitize_response lib data = Inr res"
  shows "\<exists>d vs s. data = PDict d
           \<and> res = [(''passed'', dict_get_default d ''passed'' (PBool False)),
                    (''violations'', PList vs), (''score'', PInt s)]
           \<and> 0 \<le> s \<and> s \<le> 100 \<and> list_all is_dict vs"
  using assms
  by (cases data)
     (auto simp: validate_and_sanitize_response_def Let_def map_sum_def
           split: sum.splits if_splits dest: sanitize_violations_dicts)

lemma validate_and_sanitize_response_examples:
  "validate_and_sanitize_response ref_lib (PDict [(''score'', PInt 150)])
     = Inr [(''passed'', PBool False), (''violations'', PList []), (''score'', PInt 100)]"
  "validate_and_sanitize_response ref_lib (PDict [(''score'', PStr ''abc'')])
     = Inr [(''passed'', PBool False), (''violations'', PList []), (''score'', PInt 0)]"
  "validate_and_sanitize_response ref_lib
     (PDict [(''violations'', PList [PDict [(''issue'', PStr ''x'')], PInt 3])])
     = Inr [(''passed'', PBool False),
            (''violations'',
             PList [PDict [(''file'', PStr ''unknown''), (''line'', PNone),
                           (''severity'', PStr ''medium''), (''issue'', PStr ''x''),
                           (''recommendation'', PStr ''No recommendation''),
                           (''article'', PNone)]]),
            (''score'', PInt 0)]"
  by code_simp+

lemma parse_json_response_shape:
  assumes "parse_json_response lib response = Inr res"
  shows "\<exists>p vs s. res = [(''passed'', p), (''violations'', PList vs), (''score'', PInt s)]
           \<and> 0 \<le> s \<and> s \<le> 100 \<and> list_all is_dict vs"
proof -
  from assms obtain data where "validate_and_sanitize_response lib data = Inr res"
    by (auto simp: parse_json_response_def object_fallback_def
             split: sum.splits if_splits option.splits)
  from validate_and_sanitize_response_shape [OF this] show ?thesis by blast
qed

text \<open>
  C6. A violation whose \<^verbatim>\<open>line\<close> is the string \<^verbatim>\<open>abc\<close>: the integer cast raises, and
  \<open>validate_and_sanitize_response\<close> with it.
\<close>

theorem validate_and_sanitize_response_raises:
  "validate_and_sanitize_response ref_lib
     (PDict [(''passed'', PBool False),
             (''violations'',
                PList [PDict [(''file'', PStr ''src/cookie.js''), (''line'', PStr ''abc'')]]),
             (''score'', PInt 45)])
   = Inl (Exn ValueError
            (''invalid literal for int() with base 10: '' @ [CHR 0x27] @ ''abc'' @ [CHR 0x27]))"
  by code_simp














section \<open>File selection\<close>

text \<open>
  On a list of strings the call of any type is the function on string lists.
\<close>

lemma keyword_strings_of_strings: "keyword_strings (map PStr ks) = Inr ks"
  by (induction ks) simp_all

lemma filter_by_keywords_any_strings:
  "filter_by_keywords_any files (PList (map PStr ks)) = Inr (filter_by_keywords files ks)"
proof (cases ks)
  case Nil
  then show ?thesis by (simp add: filter_by_keywords_any_def filter_by_keywords_def)
next
  case (Cons k ks')
  have "keyword_strings (map PStr (k # ks')) = Inr (k # ks')"
    by (rule keyword_strings_of_strings)
  with Cons show ?thesis by (simp add: filter_by_keywords_any_def py_iter_def)
qed

text \<open>
  C4. A candidate list no longer than the maximum is returned as it is, and no request is
  sent to the provider; this holds whether or not a client was passed.
\<close>

theorem select_best_files_small:
  "int (length filtered_files) \<le> max_files \<Longrightarrow>
     select_best_files lib w filtered_files r max_files llm_client = (Inr filtered_files, [])"
  by (simp add: select_best_files_def)

theorem select_best_files_small_witness:
  "int (length [''a.js'', ''b.py'', ''c.js'']) \<le> 5
   \<and> select_best_files ref_lib world_without_key [''a.js'', ''b.py'', ''c.js''] empty_rule 5 None
       = (Inr [''a.js'', ''b.py'', ''c.js''], [])"
  using select_best_files_small
          [of "[''a.js'', ''b.py'', ''c.js'']" 5 ref_lib world_without_key empty_rule None]
  by simp

text \<open>
  The handler's fallback: when the provider raises, the first \<open>max_files\<close> candidates are
  returned.
\<close>

lemma select_best_files_provider_raises:
  assumes "0 \<le> max_files" and "max_files < int (length filtered_files)"
      and "selection_request lib filtered_files r max_files = Inr req"
      and "client req = Inl e"
  shows "select_best_files lib w filtered_files r max_files (Some client)
           = (Inr (take (nat max_files) filtered_files), [req])"
proof -
  from assms(1,2) have "filtered_files \<noteq> []" by auto
  with assms show ?thesis
    by (simp add: select_best_files_def py_slice_to_def)
qed

text \<open>
  C3. Four candidates, a maximum of three, and a provider whose reply holds no JSON array:
  the parse gives the empty list without raising, so the fallback of the handler is not
  taken and the selection is empty, not the first three candidates.
\<close>

theorem select_best_files_unparseable_reply:
  "select_best_files ref_lib world_without_key
     [''a/cookie.js'', ''b/cookie.js'', ''c/cookie.js'', ''d/cookie.js''] cookie_rule 3
     (Some (replying ''I cannot choose between these files.''))
   = (Inr [],
      [SelectionRequest [''a/cookie.js'', ''b/cookie.js'', ''c/cookie.js'', ''d/cookie.js'']
         (PStr []) (PStr []) (PList []) [] 3])"
  by code_simp

section \<open>Rule analysis\<close>

subsection \<open>When the selection of the code files returns\<close>









lemma analyze_rule_result:
  assumes client: "(case arg of None \<Rightarrow> FeatherlessClient w | Some c \<Rightarrow> Inr c) = Inr client"
      and sel: "select_code_files lib w r rp client = (Inr code, calls)"
  shows "fst (analyze_rule lib w r rp arg) =
           Inr (let files = code @ select_doc_files r rp;
                    file_contents = read_files rp [] files
                in if files = [] then no_files_result r
                   else case fst (call_llm_for_rule lib r file_contents client) of
                          Inl e \<Rightarrow> degraded_result r file_contents e
                        | Inr result \<Rightarrow>
                            dict_set (dict_set result ''rule_id'' (rule_id_value r))
                              ''files_analyzed'' (PList (map (PStr \<circ> fst) file_contents)))"
  unfolding analyze_rule_def client using sel
  by (simp add: Let_def split: prod.splits sum.splits)


subsection \<open>The messages of the exceptions that become the error string\<close>









text \<open>
  The construction of the analysis prompt is inside the \<^verbatim>\<open>try\<close>: for a document rule with
  the same \<^verbatim>\<open>null\<close>, the AttributeError becomes the degraded result.
\<close>

lemma analyze_rule_prompt_failure_degraded:
  "analyze_rule ref_lib world_without_key null_checks_doc_rule doc_repo (Some (replying ''{}''))
     = (Inr [(''rule_id'', PStr ''doc_002''),
             (''passed'', PNone),
             (''violations'', PList []),
             (''score'', PInt 0),
             (''files_analyzed'', PList [PStr ''README.md'']),
             (''error'',
              PStr ([CHR 0x27] @ ''NoneType'' @ [CHR 0x27] @ '' object has no attribute ''
                    @ [CHR 0x27] @ ''get'' @ [CHR 0x27]))], [])"
  by code_simp



text \<open>
  One direction of the invariant holds for every result: an \<^verbatim>\<open>error\<close> key is present only in
  the degraded result, whose \<^verbatim>\<open>passed\<close> is null and whose score is 0.
\<close>

lemma analyze_rule_error_only_when_degraded:
  assumes "fst (analyze_rule lib w r rp arg) = Inr res"
      and "map_of res ''error'' \<noteq> None"
  shows "map_of res ''passed'' = Some PNone \<and> map_of res ''score'' = Some (PInt 0)"
proof -
  from assms(1) obtain client where
    client: "(case arg of None \<Rightarrow> FeatherlessClient w | Some c \<Rightarrow> Inr c) = Inr client"
    by (cases "case arg of None \<Rightarrow> FeatherlessClient w | Some c \<Rightarrow> Inr c")
       (auto simp: analyze_rule_def)
  obtain out calls where oc: "select_code_files lib w r rp client = (out, calls)"
    by (cases "select_code_files lib w r rp client") auto
  from assms(1) client oc obtain code where sel: "select_code_files lib w r rp client = (Inr code, calls)"
    by (cases out) (auto simp: analyze_rule_def)
  define files where "files = code @ select_doc_files r rp"
  define fc where "fc = read_files rp [] files"
  have "fst (analyze_rule lib w r rp arg) =
          Inr (if files = [] then no_files_result r
               else case fst (call_llm_for_rule lib r fc client) of
                      Inl e \<Rightarrow> degraded_result r fc e
                    | Inr result \<Rightarrow>
                        dict_set (dict_set result ''rule_id'' (rule_id_value r))
                          ''files_analyzed'' (PList (map (PStr \<circ> fst) fc)))"
    using analyze_rule_result [OF client sel] unfolding Let_def files_def fc_def .
  with assms(1) have
    res: "res = (if files = [] then no_files_result r
                 else case fst (call_llm_for_rule lib r fc client) of
                        Inl e \<Rightarrow> degraded_result r fc e
                      | Inr result \<Rightarrow>
                          dict_set (dict_set result ''rule_id'' (rule_id_value r))
                            ''files_analyzed'' (PList (map (PStr \<circ> fst) fc)))"
    by simp
  show ?thesis
  proof (cases "files = []")
    case True
    with res assms(2) show ?thesis by (simp add: no_files_result_def)
  next
    case False
    show ?thesis
    proof (cases "fst (call_llm_for_rule lib r fc client)")
      case (Inl e)
      with res False show ?thesis by (simp add: degraded_result_def)
    next
      case (Inr result)
      then obtain response where "parse_json_response lib response = Inr result"
        by (auto simp: call_llm_for_rule_def split: sum.splits)
      from parse_json_response_shape [OF this] obtain p vs s where
        "result = [(''passed'', p), (''violations'', PList vs), (''score'', PInt s)]"
        by blast
      with res False Inr assms(2) show ?thesis
        by (simp add: dict_set_def)
    qed
  qed
qed

text \<open>
  C2. The other direction fails. One document file and a reply whose \<^verbatim>\<open>passed\<close> is
  \<^verbatim>\<open>null\<close>: the result has \<^verbatim>\<open>passed = None\<close> and no \<^verbatim>\<open>error\<close> key.
\<close>

theorem analyze_rule_null_passed_without_error:
  "fst (analyze_rule ref_lib world_without_key doc_rule doc_repo
          (Some (replying ''{\"passed\": null, \"violations\": [], \"score\": 50}'')))
   = Inr [(''passed'', PNone), (''violations'', PList []), (''score'', PInt 50),
          (''rule_id'', PStr ''doc_001''), (''files_analyzed'', PList [PStr ''README.md''])]"
  by code_simp

text \<open>
  C10, as the claim states it, fails when more than three code files match the keywords and
  the provider selects none of them: the selection is empty and the passing result is
  returned, but the provider has been invoked once.
\<close>

theorem analyze_rule_empty_selection_after_call:
  "analyze_rule ref_lib world_without_key cookie_rule cookie_repo (Some (replying ''[]''))
     = (Inr (no_files_result cookie_rule),
        [SelectionRequest (code_files cookie_repo) (PStr []) (PStr []) (PList []) [] 3])"
  by code_simp

text \<open>
  C10, amended. When a client is available and the combined selection is empty,
  \<open>analyze_rule\<close> returns the passing result and sends no analysis request: the requests
  sent are those of the selection, none or the single selection request over more than
  three candidates. None is sent when no code file reaches the selector: the check type
  leaves code out, the code checks are absent or disabled, or no path matches a keyword.
  The selection request has been sent when more than three paths matched.
\<close>

theorem analyze_rule_no_files:
  assumes client: "(case arg of None \<Rightarrow> FeatherlessClient w | Some c \<Rightarrow> Inr c) = Inr client"
      and sel: "select_code_files lib w r rp client = (Inr code, calls)"
      and empty: "code @ select_doc_files r rp = []"
  shows "analyze_rule lib w r rp arg = (Inr (no_files_result r), calls)
       \<and> (calls = []
          \<or> (\<exists>files req. selection_request lib files r 3 = Inr req \<and> calls = [req]
                \<and> 3 < length files))
       \<and> ((check_type_of r \<notin> {PStr ''code'', PStr ''both''}
            \<or> (\<exists>cc. dict_get_default r ''code_checks'' (PDict []) = PDict cc
                  \<and> (\<not> py_truthy (dict_get_default cc ''enabled'' (PBool False))
                     \<or> filter_by_keywords_any (code_files rp)
                          (dict_get_default cc ''file_keywords'' (PList [])) = Inr [])))
           \<longrightarrow> calls = [])
       \<and> (\<forall>cc filtered.
             check_type_of r \<in> {PStr ''code'', PStr ''both''}
             \<and> dict_get_default r ''code_checks'' (PDict []) = PDict cc
             \<and> py_truthy (dict_get_default cc ''enabled'' (PBool False))
             \<and> filter_by_keywords_any (code_files rp)
                  (dict_get_default cc ''file_keywords'' (PList [])) = Inr filtered
             \<and> 3 < length filtered
             \<longrightarrow> (\<exists>req. selection_request lib filtered r 3 = Inr req \<and> calls = [req]))"
proof (intro conjI impI allI)
  show "analyze_rule lib w r rp arg = (Inr (no_files_result r), calls)"
    unfolding analyze_rule_def client using sel empty by (simp add: Let_def)
  have sb: "select_best_files lib w files r 3 (Some client) = (Inr code, calls)
            \<Longrightarrow> calls = []
                \<or> (\<exists>files req. selection_request lib files r 3 = Inr req \<and> calls = [req]
                      \<and> 3 < length files)"
    for files
  proof -
    assume a: "select_best_files lib w files r 3 (Some client) = (Inr code, calls)"
    show ?thesis
    proof (cases "int (length files) \<le> 3 \<or> files = []")
      case True
      with a show ?thesis by (auto simp: select_best_files_def split: if_splits)
    next
      case False
      then have len: "3 < length files" by auto
      from a False obtain req where "selection_request lib files r 3 = Inr req" "calls = [req]"
        by (auto simp: select_best_files_def split: if_splits sum.splits)
      with len show ?thesis by blast
    qed
  qed
  from sel show "calls = []
          \<or> (\<exists>files req. selection_request lib files r 3 = Inr req \<and> calls = [req]
                \<and> 3 < length files)"
    unfolding select_code_files_def
    by (auto split: if_splits sum.splits dest: sb)
next
  assume "check_type_of r \<notin> {PStr ''code'', PStr ''both''}
            \<or> (\<exists>cc. dict_get_default r ''code_checks'' (PDict []) = PDict cc
                  \<and> (\<not> py_truthy (dict_get_default cc ''enabled'' (PBool False))
                     \<or> filter_by_keywords_any (code_files rp)
                          (dict_get_default cc ''file_keywords'' (PList [])) = Inr []))"
  with sel show "calls = []"
    unfolding select_code_files_def
    by (auto simp: py_get_def split: if_splits sum.splits)
next
  fix cc filtered
  assume a: "check_type_of r \<in> {PStr ''code'', PStr ''both''}
             \<and> dict_get_default r ''code_checks'' (PDict []) = PDict cc
             \<and> py_truthy (dict_get_default cc ''enabled'' (PBool False))
             \<and> filter_by_keywords_any (code_files rp)
                  (dict_get_default cc ''file_keywords'' (PList [])) = Inr filtered
             \<and> 3 < length filtered"
  then have ne: "filtered \<noteq> []" by auto
  from a sel ne have "select_best_files lib w filtered r 3 (Some client) = (Inr code, calls)"
    unfolding select_code_files_def by (auto simp: py_get_def)
  with a ne show "\<exists>req. selection_request lib filtered r 3 = Inr req \<and> calls = [req]"
    by (auto simp: select_best_files_def split: if_splits sum.splits)
qed

theorem analyze_rule_no_files_witness:
  "(case Some failing_provider of None \<Rightarrow> FeatherlessClient world_without_key | Some c \<Rightarrow> Inr c)
     = Inr failing_provider
   \<and> select_code_files ref_lib world_without_key empty_rule empty_repo failing_provider = (Inr [], [])
   \<and> [] @ select_doc_files empty_rule empty_repo = []
   \<and> analyze_rule ref_lib world_without_key empty_rule empty_repo (Some failing_provider)
       = (Inr [(''rule_id'', PNone),
               (''passed'', PBool True),
               (''violations'', PList []),
               (''score'', PInt 100),
               (''files_analyzed'', PList []),
               (''note'', PStr ''No relevant files found to analyze'')], [])"
proof -
  have h1: "(case Some failing_provider of None \<Rightarrow> FeatherlessClient world_without_key
             | Some c \<Rightarrow> Inr c) = Inr failing_provider"
    by simp
  have h2: "select_code_files ref_lib world_without_key empty_rule empty_repo failing_provider
              = (Inr [], [])"
    by code_simp
  have h3: "[] @ select_doc_files empty_rule empty_repo = []"
    by code_simp
  have nf: "no_files_result empty_rule = [(''rule_id'', PNone),
               (''passed'', PBool True),
               (''violations'', PList []),
               (''score'', PInt 100),
               (''files_analyzed'', PList []),
               (''note'', PStr ''No relevant files found to analyze'')]"
    by code_simp
  from analyze_rule_no_files [OF h1 h2 h3]
  have "analyze_rule ref_lib world_without_key empty_rule empty_repo (Some failing_provider)
          = (Inr (no_files_result empty_rule), [])"
    by blast
  with h1 h2 h3 nf show ?thesis by simp
qed

section \<open>Aggregation\<close>

lemma py_round_nearest: "\<bar>of_int (py_round q) - q\<bar> \<le> 1 / 2"
proof -
  have "of_int \<lfloor>q\<rfloor> \<le> q" "q < of_int \<lfloor>q\<rfloor> + 1" by linarith+
  then show ?thesis by (auto simp: py_round_def Let_def)
qed

lemma stamp_violations_dicts:
  "list_all is_dict vs \<Longrightarrow> stamp_violations rid vs = (map (stamp rid) vs, None)"
proof (induction vs)
  case Nil
  then show ?case by simp
next
  case (Cons v vs)
  then obtain d where "v = PDict d" by (cases v) auto
  with Cons show ?case by (simp add: stamp_def)
qed

lemma collect_violations_shaped:
  "list_all rule_result_like rs \<Longrightarrow>
     collect_violations rs
       = (concat (map (\<lambda>r. map (stamp (dict_get r ''rule_id'')) (violations_of r)) rs),
          map stamped_record rs, None)"
proof (induction rs)
  case Nil
  then show ?case by simp
next
  case (Cons r rs)
  then have IH: "collect_violations rs
       = (concat (map (\<lambda>r. map (stamp (dict_get r ''rule_id'')) (violations_of r)) rs),
          map stamped_record rs, None)" and shape: "rule_result_like r"
    by simp_all
  show ?case
  proof (cases "map_of r ''violations''")
    case None
    then show ?thesis
      using IH by (simp add: dict_get_default_def dict_get_def iterate_violations_def
          violations_of_def stamped_record_def)
  next
    case (Some v)
    with shape obtain vs where v: "v = PList vs" and ds: "list_all is_dict vs"
      by (cases v) (auto simp: rule_result_like_def)
    from Some v ds IH show ?thesis
      by (simp add: dict_get_default_def dict_get_def iterate_violations_def
          violations_of_def stamped_record_def stamp_violations_dicts)
  qed
qed

lemma valid_scores_filter:
  "valid_scores results = filter is_int_or_float (map (\<lambda>r. dict_get r ''score'') results)"
proof -
  have "(dict_get r ''score'' \<noteq> PNone \<and> is_int_or_float (dict_get r ''score''))
          = is_int_or_float (dict_get r ''score'')" for r
    by (cases "dict_get r ''score''") auto
  then show ?thesis by (simp add: valid_scores_def filter_map comp_def)
qed

lemma rounded_average_ints:
  assumes "list_all (\<lambda>r. \<not> is_float (dict_get r ''score'')) results"
      and "\<bar>sum_list (numeric_scores results)\<bar> < 2 ^ 52"
  shows "rounded_average (valid_scores results)
           = Inr (if numeric_scores results = [] then 0
                  else py_round (of_int (sum_list (numeric_scores results))
                                 / of_nat (length (numeric_scores results))))"
proof -
  have nf: "\<not> list_ex is_float (valid_scores results)"
    using assms(1) by (auto simp: valid_scores_filter list_ex_iff list_all_iff)
  have ns: "numeric_scores results = map int_of_score (valid_scores results)"
    by (simp add: numeric_scores_def valid_scores_filter)
  show ?thesis
    using nf assms(2) unfolding rounded_average_def Let_def ns by simp
qed


text \<open>
  C8. For records of the rule-result shape, with integer scores (any score that is not an
  \<^verbatim>\<open>int\<close> or a \<^verbatim>\<open>bool\<close> is left out, \<^verbatim>\<open>None\<close> included) whose sum is in the range where
  the binary64 quotient is exact enough, the report holds: the mean of the numeric scores
  rounded to the nearest integer, a tie to the even one, and 0 when there is none; every
  violation of every record in input order, each carrying the rule id of its record; and
  the number of records. The rounded score is at most one half from the mean, and the
  number of violations is the sum of the records' counts.
\<close>

theorem aggregate_results_report:
  assumes shape: "list_all rule_result_like results"
      and ints: "list_all (\<lambda>r. \<not> is_float (dict_get r ''score'')) results"
      and bound: "\<bar>sum_list (numeric_scores results)\<bar> < 2 ^ 52"
  shows "fst (aggregate_results results)
           = Inr [(''score'',
                   PInt (if numeric_scores results = [] then 0
                         else py_round (of_int (sum_list (numeric_scores results))
                                        / of_nat (length (numeric_scores results))))),
                  (''violations'',
                   PList (concat (map (\<lambda>r. map (stamp (dict_get r ''rule_id'')) (violations_of r))
                                      results))),
                  (''rules_checked'', PInt (int (length results)))]
       \<and> \<bar>of_int (py_round (of_int (sum_list (numeric_scores results))
                             / of_nat (length (numeric_scores results))))
            - of_int (sum_list (numeric_scores results)) / of_nat (length (numeric_scores results))\<bar>
           \<le> (1 / 2 :: rat)
       \<and> length (concat (map (\<lambda>r. map (stamp (dict_get r ''rule_id'')) (violations_of r)) results))
           = sum_list (map (\<lambda>r. length (violations_of r)) results)"
proof (intro conjI)
  show "fst (aggregate_results results)
           = Inr [(''score'',
                   PInt (if numeric_scores results = [] then 0
                         else py_round (of_int (sum_list (numeric_scores results))
                                        / of_nat (length (numeric_scores results))))),
                  (''violations'',
                   PList (concat (map (\<lambda>r. map (stamp (dict_get r ''rule_id'')) (violations_of r))
                                      results))),
                  (''rules_checked'', PInt (int (length results)))]"
  proof (cases "results = []")
    case True
    then show ?thesis by (simp add: aggregate_results_def numeric_scores_def)
  next
    case False
    then show ?thesis
      unfolding aggregate_results_def
      by (simp add: rounded_average_ints [OF ints bound] collect_violations_shaped [OF shape])
  qed
  show "\<bar>of_int (py_round (of_int (sum_list (numeric_scores results))
                             / of_nat (length (numeric_scores results))))
            - of_int (sum_list (numeric_scores results)) / of_nat (length (numeric_scores results))\<bar>
           \<le> (1 / 2 :: rat)"
    by (rule py_round_nearest)
  show "length (concat (map (\<lambda>r. map (stamp (dict_get r ''rule_id'')) (violations_of r)) results))
           = sum_list (map (\<lambda>r. length (violations_of r)) results)"
    by (simp add: length_concat comp_def)
qed

theorem aggregate_results_report_witness:
  "list_all rule_result_like three_results
   \<and> list_all (\<lambda>r. \<not> is_float (dict_get r ''score'')) three_results
   \<and> \<bar>sum_list (numeric_scores three_results)\<bar> < 2 ^ 52
   \<and> fst (aggregate_results three_results)
       = Inr [(''score'', PInt 70),
              (''violations'',
               PList [PDict [(''file'', PStr ''a.js''), (''line'', PInt 4),
                             (''rule_id'', PStr ''consent_001'')],
                      PDict [(''file'', PStr ''b.py''), (''rule_id'', PStr ''security_001'')],
                      PDict [(''file'', PStr ''c.py''), (''rule_id'', PStr ''security_001'')]]),
              (''rules_checked'', PInt 3)]"
proof -
  have h1: "list_all rule_result_like three_results"
    by code_simp
  have h2: "list_all (\<lambda>r. \<not> is_float (dict_get r ''score'')) three_results"
    by code_simp
  have h3: "\<bar>sum_list (numeric_scores three_results)\<bar> < 2 ^ 52"
    by code_simp
  have score: "(if numeric_scores three_results = [] then 0
                else py_round (of_int (sum_list (numeric_scores three_results))
                               / of_nat (length (numeric_scores three_results)))) = 70"
    by code_simp
  have viols: "concat (map (\<lambda>r. map (stamp (dict_get r ''rule_id'')) (violations_of r)) three_results)
               = [PDict [(''file'', PStr ''a.js''), (''line'', PInt 4),
                         (''rule_id'', PStr ''consent_001'')],
                  PDict [(''file'', PStr ''b.py''), (''rule_id'', PStr ''security_001'')],
                  PDict [(''file'', PStr ''c.py''), (''rule_id'', PStr ''security_001'')]]"
    by code_simp
  have len: "int (length three_results) = 3"
    by code_simp
  from aggregate_results_report [OF h1 h2 h3]
  have "fst (aggregate_results three_results)
       = Inr [(''score'', PInt 70),
              (''violations'',
               PList [PDict [(''file'', PStr ''a.js''), (''line'', PInt 4),
                             (''rule_id'', PStr ''consent_001'')],
                      PDict [(''file'', PStr ''b.py''), (''rule_id'', PStr ''security_001'')],
                      PDict [(''file'', PStr ''c.py''), (''rule_id'', PStr ''security_001'')]]),
              (''rules_checked'', PInt 3)]"
    unfolding score viols len by blast
  with h1 h2 h3 show ?thesis by blast
qed

lemma map_of_dict_set_other: "k \<noteq> k' \<Longrightarrow> map_of (dict_set d k' v) k = map_of d k"
  by (simp add: dict_set_def update_conv')

lemma map_of_dict_set_same: "map_of (dict_set d k v) k = Some v"
  by (simp add: dict_set_def update_conv')

lemma keys_dict_set_present: "map_of d k = Some old \<Longrightarrow> map fst (dict_set d k v) = map fst d"
  by (induction d) (auto simp: dict_set_def)


text \<open>
  C9, as the claim states it, fails on any record with a violation: after the call the
  violation dictionary of the input carries the key \<^verbatim>\<open>rule_id\<close>.
\<close>

theorem aggregate_results_changes_input:
  "snd (aggregate_results
          [[(''rule_id'', PStr ''consent_001''), (''score'', PInt 80),
            (''violations'', PList [PDict [(''file'', PStr ''a.js'')]])]])
   = [[(''rule_id'', PStr ''consent_001''), (''score'', PInt 80),
       (''violations'',
        PList [PDict [(''file'', PStr ''a.js''), (''rule_id'', PStr ''consent_001'')]])]]"
  by code_simp

text \<open>
  C9, amended. The one effect of \<open>aggregate_results\<close> on its input is the stamping: in every
  record the violations are, in the same order, the former ones with \<^verbatim>\<open>rule_id\<close> set to the
  record's rule id; no other key of a violation changes; the other keys of the records,
  the order of their keys and the list of records are as before.
\<close>

theorem aggregate_results_stamps_input:
  assumes shape: "list_all rule_result_like results"
      and ints: "list_all (\<lambda>r. \<not> is_float (dict_get r ''score'')) results"
      and bound: "\<bar>sum_list (numeric_scores results)\<bar> < 2 ^ 52"
  shows "snd (aggregate_results results) = map stamped_record results
       \<and> (\<forall>r k. k \<noteq> ''violations'' \<longrightarrow> map_of (stamped_record r) k = map_of r k)
       \<and> (\<forall>r. map fst (stamped_record r) = map fst r)
       \<and> (\<forall>r. violations_of (stamped_record r)
                 = map (stamp (dict_get r ''rule_id'')) (violations_of r))
       \<and> (\<forall>rid d k. k \<noteq> ''rule_id'' \<longrightarrow> map_of (dict_set d ''rule_id'' rid) k = map_of d k)
       \<and> (\<forall>rid d. map_of (dict_set d ''rule_id'' rid) ''rule_id'' = Some rid)"
proof (intro conjI allI impI)
  show "snd (aggregate_results results) = map stamped_record results"
  proof (cases "results = []")
    case True
    then show ?thesis by (simp add: aggregate_results_def)
  next
    case False
    then show ?thesis
      unfolding aggregate_results_def
      by (simp add: rounded_average_ints [OF ints bound] collect_violations_shaped [OF shape])
  qed
next
  fix r :: pydict and k :: string
  assume "k \<noteq> ''violations''"
  then show "map_of (stamped_record r) k = map_of r k"
    by (auto simp: stamped_record_def map_of_dict_set_other split: option.splits pyval.splits)
next
  fix r :: pydict
  show "map fst (stamped_record r) = map fst r"
    by (auto simp: stamped_record_def keys_dict_set_present split: option.splits pyval.splits)
  show "violations_of (stamped_record r) = map (stamp (dict_get r ''rule_id'')) (violations_of r)"
    by (auto simp: stamped_record_def violations_of_def map_of_dict_set_same
        split: option.splits pyval.splits)
next
  fix rid d and k :: string
  assume "k \<noteq> ''rule_id''"
  then show "map_of (dict_set d ''rule_id'' rid) k = map_of d k"
    by (rule map_of_dict_set_other)
next
  fix rid d
  show "map_of (dict_set d ''rule_id'' rid) ''rule_id'' = Some rid"
    by (rule map_of_dict_set_same)
qed

theorem aggregate_results_stamps_input_witness:
  "list_all rule_result_like three_results
   \<and> list_all (\<lambda>r. \<not> is_float (dict_get r ''score'')) three_results
   \<and> \<bar>sum_list (numeric_scores three_results)\<bar> < 2 ^ 52
   \<and> snd (aggregate_results three_results)
       = [[(''rule_id'', PStr ''consent_001''), (''passed'', PBool False),
           (''violations'',
            PList [PDict [(''file'', PStr ''a.js''), (''line'', PInt 4),
                          (''rule_id'', PStr ''consent_001'')]]),
           (''score'', PInt 80)],
          [(''rule_id'', PStr ''consent_002''), (''passed'', PNone), (''violations'', PList []),
           (''score'', PNone), (''error'', PStr ''timeout'')],
          [(''rule_id'', PStr ''security_001''), (''passed'', PBool False),
           (''violations'',
            PList [PDict [(''file'', PStr ''b.py''), (''rule_id'', PStr ''security_001'')],
                   PDict [(''file'', PStr ''c.py''), (''rule_id'', PStr ''security_001'')]]),
           (''score'', PInt 60)]]"
proof -
  have h1: "list_all rule_result_like three_results"
    by code_simp
  have h2: "list_all (\<lambda>r. \<not> is_float (dict_get r ''score'')) three_results"
    by code_simp
  have h3: "\<bar>sum_list (numeric_scores three_results)\<bar> < 2 ^ 52"
    by code_simp
  have after: "map stamped_record three_results
       = [[(''rule_id'', PStr ''consent_001''), (''passed'', PBool False),
           (''violations'',
            PList [PDict [(''file'', PStr ''a.js''), (''line'', PInt 4),
                          (''rule_id'', PStr ''consent_001'')]]),
           (''score'', PInt 80)],
          [(''rule_id'', PStr ''consent_002''), (''passed'', PNone), (''violations'', PList []),
           (''score'', PNone), (''error'', PStr ''timeout'')],
          [(''rule_id'', PStr ''security_001''), (''passed'', PBool False),
           (''violations'',
            PList [PDict [(''file'', PStr ''b.py''), (''rule_id'', PStr ''security_001'')],
                   PDict [(''file'', PStr ''c.py''), (''rule_id'', PStr ''security_001'')]]),
           (''score'', PInt 60)]]"
    by code_simp
  from aggregate_results_stamps_input [OF h1 h2 h3]
  have "snd (aggregate_results three_results) = map stamped_record three_results"
    by blast
  with after h1 h2 h3 show ?thesis by simp
qed

end
